theory Spec2Isabelle
  imports Complex_Main
begin

section \<open>The litra driver (dist/commonjs/driver.js)\<close>

text \<open>
  The driver finds a Logitech Litra light among the HID devices of the machine and sends it
  20-entry output reports. Every exported function is embedded below under its own name.
  A \<^verbatim>\<open>throw\<close> is the outcome \<open>Threw\<close> carrying the thrown string; the HID handle is a
  record holding the reports written so far, so that every call returns its outcome together
  with the device as it is left.
\<close>

subsection \<open>JavaScript numbers\<close>

text \<open>
  A JavaScript number is a finite value, one of the two infinities, or NaN. Every finite
  double is a rational, so the finite values are embedded in \<open>rat\<close>; the comparisons
  \<^verbatim>\<open><\<close>, \<^verbatim>\<open>>\<close> and \<^verbatim>\<open>===\<close> are exact on doubles and are modelled exactly.
\<close>

datatype number = Fin rat | PosInfinity | NegInfinity | NaN

definition ofInt :: "int \<Rightarrow> number" where
  "ofInt n = Fin (of_int n)"

fun js_lt :: "number \<Rightarrow> number \<Rightarrow> bool" where
  "js_lt NaN _ = False"
| "js_lt _ NaN = False"
| "js_lt (Fin a) (Fin b) = (a < b)"
| "js_lt (Fin _) PosInfinity = True"
| "js_lt (Fin _) NegInfinity = False"
| "js_lt PosInfinity _ = False"
| "js_lt NegInfinity NegInfinity = False"
| "js_lt NegInfinity _ = True"

definition js_gt :: "number \<Rightarrow> number \<Rightarrow> bool" where
  "js_gt a b = js_lt b a"

fun js_strict_eq :: "number \<Rightarrow> number \<Rightarrow> bool" where
  "js_strict_eq NaN _ = False"
| "js_strict_eq _ NaN = False"
| "js_strict_eq a b = (a = b)"

text \<open>\<^verbatim>\<open>Number.isInteger\<close>: a finite value with no fractional part.\<close>

fun Number_isInteger :: "number \<Rightarrow> bool" where
  "Number_isInteger (Fin r) = (of_int \<lfloor>r\<rfloor> = r)"
| "Number_isInteger _ = False"

text \<open>
  The integer that a number holds once \<open>Number_isInteger\<close> has accepted it (the value 0 of
  the other cases is never read: both callers test \<open>Number_isInteger\<close> first).
\<close>

fun integerOf :: "number \<Rightarrow> int" where
  "integerOf (Fin r) = \<lfloor>r\<rfloor>"
| "integerOf _ = 0"

text \<open>
  The decimal rendering that a template literal gives an integer-valued number
  (\<^verbatim>\<open>`${minimumTemperature}`\<close>).
\<close>

definition digitChar :: "nat \<Rightarrow> char" where
  "digitChar d = ''0123456789'' ! d"

function natToString :: "nat \<Rightarrow> string" where
  "natToString n = (if n < 10 then [digitChar n] else natToString (n div 10) @ [digitChar (n mod 10)])"
  by pat_completeness auto
termination
  by (relation "measure id") auto

declare natToString.simps [simp del]

definition Number_toString :: "int \<Rightarrow> string" where
  "Number_toString n = (if n < 0 then CHR ''-'' # natToString (nat (- n)) else natToString (nat n))"

subsection \<open>Outcomes\<close>

datatype 'a outcome = Returned 'a | Threw string

subsection \<open>The HID layer (node-hid)\<close>

text \<open>
  An entry of \<^verbatim>\<open>HID.devices()\<close>, with the fields the driver reads, and an opened handle.
  \<^verbatim>\<open>write\<close> appends the report to the handle's log. Failures of the transport itself
  (\<^verbatim>\<open>new HID\<close> or \<^verbatim>\<open>write\<close> throwing) belong to node-hid and are not modelled.
\<close>

record HidDeviceInfo =
  vendorId :: int
  productId :: int
  usagePage :: int
  path :: string

record HID =
  hidPath :: string
  written :: "int list list"

definition new_HID :: "string \<Rightarrow> HID" where
  "new_HID p = \<lparr>hidPath = p, written = []\<rparr>"

definition hid_write :: "HID \<Rightarrow> int list \<Rightarrow> HID" where
  "hid_write h report = h\<lparr>written := written h @ [report]\<rparr>"

subsection \<open>Device types, constants and bounds tables\<close>

datatype DeviceType = LitraGlow | LitraBeam

record Device =
  type :: DeviceType
  hid :: HID

definition VENDOR_ID :: int where
  "VENDOR_ID = 0x046d"

definition PRODUCT_IDS :: "int list" where
  "PRODUCT_IDS = [0xc900, 0xc901]"

definition USAGE_PAGE :: int where
  "USAGE_PAGE = 0xff43"

fun MINIMUM_BRIGHTNESS_IN_LUMEN_BY_DEVICE_TYPE :: "DeviceType \<Rightarrow> int" where
  "MINIMUM_BRIGHTNESS_IN_LUMEN_BY_DEVICE_TYPE LitraGlow = 20"
| "MINIMUM_BRIGHTNESS_IN_LUMEN_BY_DEVICE_TYPE LitraBeam = 30"

fun MAXIMUM_BRIGHTNESS_IN_LUMEN_BY_DEVICE_TYPE :: "DeviceType \<Rightarrow> int" where
  "MAXIMUM_BRIGHTNESS_IN_LUMEN_BY_DEVICE_TYPE LitraGlow = 250"
| "MAXIMUM_BRIGHTNESS_IN_LUMEN_BY_DEVICE_TYPE LitraBeam = 400"

fun MINIMUM_TEMPERATURE_IN_KELVIN_BY_DEVICE_TYPE :: "DeviceType \<Rightarrow> int" where
  "MINIMUM_TEMPERATURE_IN_KELVIN_BY_DEVICE_TYPE LitraGlow = 2700"
| "MINIMUM_TEMPERATURE_IN_KELVIN_BY_DEVICE_TYPE LitraBeam = 2700"

fun MAXIMUM_TEMPERATURE_IN_KELVIN_BY_DEVICE_TYPE :: "DeviceType \<Rightarrow> int" where
  "MAXIMUM_TEMPERATURE_IN_KELVIN_BY_DEVICE_TYPE LitraGlow = 6500"
| "MAXIMUM_TEMPERATURE_IN_KELVIN_BY_DEVICE_TYPE LitraBeam = 6500"

definition getMinimumBrightnessInLumenForDevice :: "Device \<Rightarrow> int" where
  "getMinimumBrightnessInLumenForDevice device = MINIMUM_BRIGHTNESS_IN_LUMEN_BY_DEVICE_TYPE (type device)"

definition getMaximumBrightnessInLumenForDevice :: "Device \<Rightarrow> int" where
  "getMaximumBrightnessInLumenForDevice device = MAXIMUM_BRIGHTNESS_IN_LUMEN_BY_DEVICE_TYPE (type device)"

definition getMinimumTemperatureInKelvinForDevice :: "Device \<Rightarrow> int" where
  "getMinimumTemperatureInKelvinForDevice device = MINIMUM_TEMPERATURE_IN_KELVIN_BY_DEVICE_TYPE (type device)"

definition getMaximumTemperatureInKelvinForDevice :: "Device \<Rightarrow> int" where
  "getMaximumTemperatureInKelvinForDevice device = MAXIMUM_TEMPERATURE_IN_KELVIN_BY_DEVICE_TYPE (type device)"

subsection \<open>The helpers of \<^verbatim>\<open>./utils\<close>\<close>

text \<open>
  The driver calls three helpers of the module \<^verbatim>\<open>./utils\<close>, whose source is not among
  the sources of the driver. The driver's functions therefore take the helpers as a parameter
  \<open>u\<close>; whatever is proved for every \<open>u\<close> holds of the driver's own code alone.
\<close>

record Utils =
  padRight :: "int list \<Rightarrow> nat \<Rightarrow> int \<Rightarrow> int list"
  integerToBytes :: "int \<Rightarrow> int list"
  percentageWithinRange :: "number \<Rightarrow> int \<Rightarrow> int \<Rightarrow> number"

text \<open>
  Modelled from the spec: \<^verbatim>\<open>padRight\<close> of \<^verbatim>\<open>./utils\<close> is missing from the sources. The
  specification says of every report that it is "right-padded with zero bytes to a fixed
  total length of 20 bytes": the array, followed by the padding value up to the given length.
\<close>

definition padRight_spec :: "int list \<Rightarrow> nat \<Rightarrow> int \<Rightarrow> int list" where
  "padRight_spec array len padWith = array @ replicate (len - length array) padWith"

text \<open>
  Modelled from the spec: \<^verbatim>\<open>integerToBytes\<close> of \<^verbatim>\<open>./utils\<close> is missing from the sources.
  The specification speaks of a "2-byte big-endian-or-device-specific integer encoding";
  the big-endian reading is taken here, and no result below depends on it.
\<close>

definition integerToBytes_spec :: "int \<Rightarrow> int list" where
  "integerToBytes_spec n = [n div 256, n mod 256]"

text \<open>
  Modelled from the spec: \<^verbatim>\<open>percentageWithinRange\<close> of \<^verbatim>\<open>./utils\<close> is missing from the
  sources. The specification gives the interpolation as
  \<^verbatim>\<open>min + round(percentage/100 * (max - min))\<close> with nearest-integer rounding; \<open>round\<close> is
  \<open>\<lfloor>x + 1/2\<rfloor>\<close>, the rounding of \<^verbatim>\<open>Math.round\<close>. Arithmetic on NaN and the infinities
  follows IEEE 754; the percentage setters never pass an infinity.
\<close>

fun percentageWithinRange_spec :: "number \<Rightarrow> int \<Rightarrow> int \<Rightarrow> number" where
  "percentageWithinRange_spec (Fin p) startRange endRange =
     Fin (of_int (startRange + round (p / 100 * of_int (endRange - startRange))))"
| "percentageWithinRange_spec NaN startRange endRange = NaN"
| "percentageWithinRange_spec PosInfinity startRange endRange =
     (if startRange < endRange then PosInfinity
      else if endRange < startRange then NegInfinity else NaN)"
| "percentageWithinRange_spec NegInfinity startRange endRange =
     (if startRange < endRange then NegInfinity
      else if endRange < startRange then PosInfinity else NaN)"

text \<open>
  Modelled from the spec: the module \<^verbatim>\<open>./utils\<close> as the driver imports it, made of the three
  helpers above.
\<close>

definition utils_1 :: Utils where
  "utils_1 = \<lparr>padRight = padRight_spec, integerToBytes = integerToBytes_spec,
              percentageWithinRange = percentageWithinRange_spec\<rparr>"

subsection \<open>Finding the device\<close>

definition getDeviceTypeByProductId :: "int \<Rightarrow> DeviceType outcome" where
  "getDeviceTypeByProductId pid =
     (if pid = 0xc900 then Returned LitraGlow
      else if pid = 0xc901 then Returned LitraBeam
      else Threw ''Unknown device type'')"

definition isMatchingDevice :: "HidDeviceInfo \<Rightarrow> bool" where
  "isMatchingDevice device \<longleftrightarrow>
     vendorId device = VENDOR_ID \<and> productId device \<in> set PRODUCT_IDS \<and> usagePage device = USAGE_PAGE"

text \<open>\<open>findDevice\<close> takes the list that \<^verbatim>\<open>HID.devices()\<close> returns; \<open>None\<close> is \<^verbatim>\<open>null\<close>.\<close>

definition findDevice :: "HidDeviceInfo list \<Rightarrow> Device option outcome" where
  "findDevice devices =
     (case List.find isMatchingDevice devices of
        Some matchingDevice \<Rightarrow>
          (case getDeviceTypeByProductId (productId matchingDevice) of
             Threw e \<Rightarrow> Threw e
           | Returned t \<Rightarrow> Returned (Some \<lparr>type = t, hid = new_HID (path matchingDevice)\<rparr>))
      | None \<Rightarrow> Returned None)"

subsection \<open>Power\<close>

definition turnOn :: "Utils \<Rightarrow> Device \<Rightarrow> unit outcome \<times> Device" where
  "turnOn u device =
     (Returned (), device\<lparr>hid := hid_write (hid device) (padRight u [0x11, 0xff, 0x04, 0x1c, 0x01] 20 0x00)\<rparr>)"

definition turnOff :: "Utils \<Rightarrow> Device \<Rightarrow> unit outcome \<times> Device" where
  "turnOff u device =
     (Returned (), device\<lparr>hid := hid_write (hid device) (padRight u [0x11, 0xff, 0x04, 0x1c, 0x00] 20 0x00)\<rparr>)"

subsection \<open>Temperature\<close>

definition setTemperatureInKelvin :: "Utils \<Rightarrow> Device \<Rightarrow> number \<Rightarrow> unit outcome \<times> Device" where
  "setTemperatureInKelvin u device temperatureInKelvin =
     (if \<not> Number_isInteger temperatureInKelvin
      then (Threw ''Provided temperature must be an integer'', device)
      else
        let minimumTemperature = getMinimumTemperatureInKelvinForDevice device;
            maximumTemperature = getMaximumTemperatureInKelvinForDevice device
        in if js_lt temperatureInKelvin (ofInt minimumTemperature) \<or>
              js_gt temperatureInKelvin (ofInt maximumTemperature)
           then (Threw (''Provided temperature must be between '' @ Number_toString minimumTemperature
                        @ '' and '' @ Number_toString maximumTemperature @ '' for this device''), device)
           else (Returned (),
                 device\<lparr>hid := hid_write (hid device)
                   (padRight u ([0x11, 0xff, 0x04, 0x9c] @ integerToBytes u (integerOf temperatureInKelvin))
                      20 0x00)\<rparr>))"

definition setTemperaturePercentage :: "Utils \<Rightarrow> Device \<Rightarrow> number \<Rightarrow> unit outcome \<times> Device" where
  "setTemperaturePercentage u device temperaturePercentage =
     (if js_lt temperaturePercentage (Fin 0) \<or> js_gt temperaturePercentage (Fin 100)
      then (Threw ''Percentage must be between 0 and 100'', device)
      else
        let minimumTemperature = getMinimumTemperatureInKelvinForDevice device;
            maximumTemperature = getMaximumTemperatureInKelvinForDevice device
        in setTemperatureInKelvin u device
             (if js_strict_eq temperaturePercentage (Fin 0)
              then ofInt minimumTemperature
              else percentageWithinRange u temperaturePercentage minimumTemperature maximumTemperature))"

subsection \<open>Brightness\<close>

definition setBrightnessInLumen :: "Utils \<Rightarrow> Device \<Rightarrow> number \<Rightarrow> unit outcome \<times> Device" where
  "setBrightnessInLumen u device brightnessInLumen =
     (if \<not> Number_isInteger brightnessInLumen
      then (Threw ''Provided brightness must be an integer'', device)
      else
        let minimumBrightness = getMinimumBrightnessInLumenForDevice device;
            maximumBrightness = getMaximumBrightnessInLumenForDevice device
        in if js_lt brightnessInLumen (ofInt minimumBrightness) \<or>
              js_gt brightnessInLumen (ofInt maximumBrightness)
           then (Threw (''Provided brightness must be between '' @ Number_toString minimumBrightness
                        @ '' and '' @ Number_toString maximumBrightness @ '' for this device''), device)
           else (Returned (),
                 device\<lparr>hid := hid_write (hid device)
                   (padRight u [0x11, 0xff, 0x04, 0x4c, 0x00, integerOf brightnessInLumen] 20 0x00)\<rparr>))"

definition setBrightnessPercentage :: "Utils \<Rightarrow> Device \<Rightarrow> number \<Rightarrow> unit outcome \<times> Device" where
  "setBrightnessPercentage u device brightnessPercentage =
     (if js_lt brightnessPercentage (Fin 0) \<or> js_gt brightnessPercentage (Fin 100)
      then (Threw ''Percentage must be between 0 and 100'', device)
      else
        let minimumBrightness = getMinimumBrightnessInLumenForDevice device;
            maximumBrightness = getMaximumBrightnessInLumenForDevice device
        in setBrightnessInLumen u device
             (if js_strict_eq brightnessPercentage (Fin 0)
              then ofInt minimumBrightness
              else percentageWithinRange u brightnessPercentage minimumBrightness maximumBrightness))"

subsection \<open>Report entries\<close>

text \<open>
  A report is handed to \<^verbatim>\<open>write\<close> as an array of numbers, one per byte of the 20-byte
  output report; an entry stands for a byte when it lies between 0 and 255.
\<close>

definition isByte :: "int \<Rightarrow> bool" where
  "isByte b \<longleftrightarrow> 0 \<le> b \<and> b \<le> 255"

section \<open>Auxiliary facts\<close>


lemma isInteger_ofInt: "Number_isInteger (ofInt n)"
  by (simp add: ofInt_def)

lemma integerOf_ofInt: "integerOf (ofInt n) = n"
  by (simp add: ofInt_def)

lemma js_lt_ofInt: "js_lt (ofInt a) (ofInt b) = (a < b)"
  by (simp add: ofInt_def)

lemma js_gt_ofInt: "js_gt (ofInt a) (ofInt b) = (b < a)"
  by (simp add: js_gt_def js_lt_ofInt)

lemma Number_isInteger_iff: "Number_isInteger v \<longleftrightarrow> (\<exists>n. v = ofInt n)"
proof
  assume "Number_isInteger v"
  then obtain r where v: "v = Fin r"
    by (cases v) simp_all
  with \<open>Number_isInteger v\<close> have "of_int \<lfloor>r\<rfloor> = r"
    by simp
  with v have "v = ofInt \<lfloor>r\<rfloor>"
    by (auto simp: ofInt_def)
  then show "\<exists>n. v = ofInt n" ..
next
  assume "\<exists>n. v = ofInt n"
  then show "Number_isInteger v"
    by (auto simp: isInteger_ofInt)
qed

lemma setBrightnessInLumen_ofInt:
  "setBrightnessInLumen u d (ofInt n) =
     (if n < getMinimumBrightnessInLumenForDevice d \<or> getMaximumBrightnessInLumenForDevice d < n
      then (Threw (''Provided brightness must be between ''
                   @ Number_toString (getMinimumBrightnessInLumenForDevice d) @ '' and ''
                   @ Number_toString (getMaximumBrightnessInLumenForDevice d) @ '' for this device''), d)
      else (Returned (),
            d\<lparr>hid := hid_write (hid d) (padRight u [0x11, 0xff, 0x04, 0x4c, 0x00, n] 20 0x00)\<rparr>))"
  by (simp add: setBrightnessInLumen_def Let_def isInteger_ofInt integerOf_ofInt js_lt_ofInt js_gt_ofInt)

lemma setTemperatureInKelvin_ofInt:
  "setTemperatureInKelvin u d (ofInt n) =
     (if n < getMinimumTemperatureInKelvinForDevice d \<or> getMaximumTemperatureInKelvinForDevice d < n
      then (Threw (''Provided temperature must be between ''
                   @ Number_toString (getMinimumTemperatureInKelvinForDevice d) @ '' and ''
                   @ Number_toString (getMaximumTemperatureInKelvinForDevice d) @ '' for this device''), d)
      else (Returned (),
            d\<lparr>hid := hid_write (hid d) (padRight u ([0x11, 0xff, 0x04, 0x9c] @ integerToBytes u n) 20 0x00)\<rparr>))"
  by (simp add: setTemperatureInKelvin_def Let_def isInteger_ofInt integerOf_ofInt js_lt_ofInt js_gt_ofInt)

lemma setBrightnessInLumen_not_integer:
  "\<not> Number_isInteger v \<Longrightarrow>
     setBrightnessInLumen u d v = (Threw ''Provided brightness must be an integer'', d)"
  by (simp add: setBrightnessInLumen_def)

lemma setTemperatureInKelvin_not_integer:
  "\<not> Number_isInteger v \<Longrightarrow>
     setTemperatureInKelvin u d v = (Threw ''Provided temperature must be an integer'', d)"
  by (simp add: setTemperatureInKelvin_def)

lemma Number_toString_bounds:
  "Number_toString 20 = ''20''" "Number_toString 30 = ''30''"
  "Number_toString 250 = ''250''" "Number_toString 400 = ''400''"
  "Number_toString 2700 = ''2700''" "Number_toString 6500 = ''6500''"
  by (simp_all add: Number_toString_def natToString.simps digitChar_def)

lemma brightness_bounds_cases:
  "type d = LitraGlow \<and> getMinimumBrightnessInLumenForDevice d = 20 \<and> getMaximumBrightnessInLumenForDevice d = 250
   \<or> type d = LitraBeam \<and> getMinimumBrightnessInLumenForDevice d = 30 \<and> getMaximumBrightnessInLumenForDevice d = 400"
  by (cases "type d") (simp_all add: getMinimumBrightnessInLumenForDevice_def getMaximumBrightnessInLumenForDevice_def)

lemma temperature_bounds:
  "getMinimumTemperatureInKelvinForDevice d = 2700" "getMaximumTemperatureInKelvinForDevice d = 6500"
  by (cases "type d"; simp add: getMinimumTemperatureInKelvinForDevice_def getMaximumTemperatureInKelvinForDevice_def)+

lemma round_interpolation_bounds:
  fixes p :: rat
  assumes "0 \<le> p" "p \<le> 100" "0 \<le> D"
  shows "0 \<le> round (p / 100 * of_int D)" "round (p / 100 * of_int D) \<le> D"
proof -
  have lo: "0 \<le> p / 100 * of_int D"
    using assms by simp
  have "p * of_int D \<le> 100 * of_int D"
    using assms by (intro mult_right_mono) simp_all
  then have hi: "p / 100 * of_int D \<le> of_int D"
    by simp
  from lo have "round (0::rat) \<le> round (p / 100 * of_int D)"
    by (rule round_mono)
  then show "0 \<le> round (p / 100 * of_int D)"
    by simp
  from hi have "round (p / 100 * of_int D) \<le> round (of_int D :: rat)"
    by (rule round_mono)
  then show "round (p / 100 * of_int D) \<le> D"
    by simp
qed

lemma floor_rat_numeral:
  "\<lfloor>numeral a / numeral b :: rat\<rfloor> = numeral a div numeral b"
  using floor_divide_of_int_eq [of "numeral a" "numeral b", where ?'a = rat] by simp

lemma padRight_spec_power:
  "padRight_spec [0x11, 0xff, 0x04, 0x1c, b] 20 0
     = [0x11, 0xff, 0x04, 0x1c, b, 0, 0, 0, 0, 0, 0, 0, 0, 0, 0, 0, 0, 0, 0, 0]"
  by (simp add: padRight_spec_def numeral_eq_Suc)

lemma padRight_spec_brightness:
  "padRight_spec [0x11, 0xff, 0x04, 0x4c, 0x00, n] 20 0
     = [0x11, 0xff, 0x04, 0x4c, 0x00, n, 0, 0, 0, 0, 0, 0, 0, 0, 0, 0, 0, 0, 0, 0]"
  by (simp add: padRight_spec_def numeral_eq_Suc)

lemma padRight_spec_temperature:
  "padRight_spec [0x11, 0xff, 0x04, 0x9c, a, b] 20 0
     = [0x11, 0xff, 0x04, 0x9c, a, b, 0, 0, 0, 0, 0, 0, 0, 0, 0, 0, 0, 0, 0, 0]"
  by (simp add: padRight_spec_def numeral_eq_Suc)

lemma js_strict_eq_Fin: "js_strict_eq (Fin a) (Fin b) = (a = b)"
  by simp

lemma setTemperaturePercentage_Fin:
  "setTemperaturePercentage u d (Fin p) =
     (if p < 0 \<or> 100 < p then (Threw ''Percentage must be between 0 and 100'', d)
      else setTemperatureInKelvin u d
             (if p = 0 then ofInt (getMinimumTemperatureInKelvinForDevice d)
              else percentageWithinRange u (Fin p) (getMinimumTemperatureInKelvinForDevice d)
                     (getMaximumTemperatureInKelvinForDevice d)))"
  by (simp add: setTemperaturePercentage_def js_gt_def Let_def)

lemma setBrightnessPercentage_Fin:
  "setBrightnessPercentage u d (Fin p) =
     (if p < 0 \<or> 100 < p then (Threw ''Percentage must be between 0 and 100'', d)
      else setBrightnessInLumen u d
             (if p = 0 then ofInt (getMinimumBrightnessInLumenForDevice d)
              else percentageWithinRange u (Fin p) (getMinimumBrightnessInLumenForDevice d)
                     (getMaximumBrightnessInLumenForDevice d)))"
  by (simp add: setBrightnessPercentage_def js_gt_def Let_def)

lemma setTemperatureInKelvin_cases:
  "setTemperatureInKelvin u d v = (Threw ''Provided temperature must be an integer'', d)
   \<or> setTemperatureInKelvin u d v =
        (Threw (''Provided temperature must be between ''
                @ Number_toString (getMinimumTemperatureInKelvinForDevice d) @ '' and ''
                @ Number_toString (getMaximumTemperatureInKelvinForDevice d) @ '' for this device''), d)
   \<or> setTemperatureInKelvin u d v =
        (Returned (), d\<lparr>hid := hid_write (hid d)
           (padRight u ([0x11, 0xff, 0x04, 0x9c] @ integerToBytes u (integerOf v)) 20 0x00)\<rparr>)"
  by (simp add: setTemperatureInKelvin_def Let_def)

lemma setBrightnessInLumen_cases:
  "setBrightnessInLumen u d v = (Threw ''Provided brightness must be an integer'', d)
   \<or> setBrightnessInLumen u d v =
        (Threw (''Provided brightness must be between ''
                @ Number_toString (getMinimumBrightnessInLumenForDevice d) @ '' and ''
                @ Number_toString (getMaximumBrightnessInLumenForDevice d) @ '' for this device''), d)
   \<or> setBrightnessInLumen u d v =
        (Returned (), d\<lparr>hid := hid_write (hid d)
           (padRight u [0x11, 0xff, 0x04, 0x4c, 0x00, integerOf v] 20 0x00)\<rparr>)"
  by (simp add: setBrightnessInLumen_def Let_def)

lemma setTemperatureInKelvin_not_percentage_error:
  "fst (setTemperatureInKelvin u d v) \<noteq> Threw ''Percentage must be between 0 and 100''"
  using setTemperatureInKelvin_cases [of u d v] by auto

lemma setBrightnessInLumen_not_percentage_error:
  "fst (setBrightnessInLumen u d v) \<noteq> Threw ''Percentage must be between 0 and 100''"
  using setBrightnessInLumen_cases [of u d v] by auto

lemma setTemperatureInKelvin_threw_unchanged:
  "fst (setTemperatureInKelvin u d v) = Threw e \<Longrightarrow> snd (setTemperatureInKelvin u d v) = d"
  using setTemperatureInKelvin_cases [of u d v] by auto

lemma setBrightnessInLumen_threw_unchanged:
  "fst (setBrightnessInLumen u d v) = Threw e \<Longrightarrow> snd (setBrightnessInLumen u d v) = d"
  using setBrightnessInLumen_cases [of u d v] by auto

lemma setTemperaturePercentage_cases:
  "setTemperaturePercentage u d p = (Threw ''Percentage must be between 0 and 100'', d)
   \<or> (\<exists>v. setTemperaturePercentage u d p = setTemperatureInKelvin u d v)"
  by (auto simp: setTemperaturePercentage_def Let_def)

lemma setBrightnessPercentage_cases:
  "setBrightnessPercentage u d p = (Threw ''Percentage must be between 0 and 100'', d)
   \<or> (\<exists>v. setBrightnessPercentage u d p = setBrightnessInLumen u d v)"
  by (auto simp: setBrightnessPercentage_def Let_def)

lemma setTemperaturePercentage_threw_unchanged:
  "fst (setTemperaturePercentage u d p) = Threw e \<Longrightarrow> snd (setTemperaturePercentage u d p) = d"
  using setTemperaturePercentage_cases [of u d p]
  by (auto dest: setTemperatureInKelvin_threw_unchanged)

lemma setBrightnessPercentage_threw_unchanged:
  "fst (setBrightnessPercentage u d p) = Threw e \<Longrightarrow> snd (setBrightnessPercentage u d p) = d"
  using setBrightnessPercentage_cases [of u d p]
  by (auto dest: setBrightnessInLumen_threw_unchanged)

lemma find_first_match:
  "\<forall>d\<in>set pre. \<not> P d \<Longrightarrow> P m \<Longrightarrow> List.find P (pre @ m # post) = Some m"
  by (induction pre) simp_all

lemma isMatchingDevice_iff:
  "isMatchingDevice x \<longleftrightarrow>
     vendorId x = 0x046d \<and> (productId x = 0xc900 \<or> productId x = 0xc901) \<and> usagePage x = 0xff43"
  by (auto simp: isMatchingDevice_def VENDOR_ID_def PRODUCT_IDS_def USAGE_PAGE_def)

lemma temperature_interpolation_in_range:
  fixes p :: rat
  assumes "0 \<le> p" "p \<le> 100"
  shows "getMinimumTemperatureInKelvinForDevice d
           \<le> getMinimumTemperatureInKelvinForDevice d
               + round (p / 100 * of_int (getMaximumTemperatureInKelvinForDevice d
                                           - getMinimumTemperatureInKelvinForDevice d))"
    and "getMinimumTemperatureInKelvinForDevice d
           + round (p / 100 * of_int (getMaximumTemperatureInKelvinForDevice d
                                       - getMinimumTemperatureInKelvinForDevice d))
         \<le> getMaximumTemperatureInKelvinForDevice d"
proof -
  have "0 \<le> getMaximumTemperatureInKelvinForDevice d - getMinimumTemperatureInKelvinForDevice d"
    by (simp add: temperature_bounds)
  from round_interpolation_bounds [OF assms this]
  show "getMinimumTemperatureInKelvinForDevice d
           \<le> getMinimumTemperatureInKelvinForDevice d
               + round (p / 100 * of_int (getMaximumTemperatureInKelvinForDevice d
                                           - getMinimumTemperatureInKelvinForDevice d))"
    and "getMinimumTemperatureInKelvinForDevice d
           + round (p / 100 * of_int (getMaximumTemperatureInKelvinForDevice d
                                       - getMinimumTemperatureInKelvinForDevice d))
         \<le> getMaximumTemperatureInKelvinForDevice d"
    by linarith+
qed

lemma brightness_interpolation_in_range:
  fixes p :: rat
  assumes "0 \<le> p" "p \<le> 100"
  shows "getMinimumBrightnessInLumenForDevice d
           \<le> getMinimumBrightnessInLumenForDevice d
               + round (p / 100 * of_int (getMaximumBrightnessInLumenForDevice d
                                           - getMinimumBrightnessInLumenForDevice d))"
    and "getMinimumBrightnessInLumenForDevice d
           + round (p / 100 * of_int (getMaximumBrightnessInLumenForDevice d
                                       - getMinimumBrightnessInLumenForDevice d))
         \<le> getMaximumBrightnessInLumenForDevice d"
proof -
  have "0 \<le> getMaximumBrightnessInLumenForDevice d - getMinimumBrightnessInLumenForDevice d"
    using brightness_bounds_cases [of d] by auto
  from round_interpolation_bounds [OF assms this]
  show "getMinimumBrightnessInLumenForDevice d
           \<le> getMinimumBrightnessInLumenForDevice d
               + round (p / 100 * of_int (getMaximumBrightnessInLumenForDevice d
                                           - getMinimumBrightnessInLumenForDevice d))"
    and "getMinimumBrightnessInLumenForDevice d
           + round (p / 100 * of_int (getMaximumBrightnessInLumenForDevice d
                                       - getMinimumBrightnessInLumenForDevice d))
         \<le> getMaximumBrightnessInLumenForDevice d"
    by linarith+
qed

lemma round_of_int_diff: "round (of_int a - of_int b :: rat) = a - b"
  using round_of_int [of "a - b", where ?'a = rat] by simp

lemma percentageWithinRange_spec_Fin:
  "percentageWithinRange_spec (Fin p) lo hi = ofInt (lo + round (p / 100 * of_int (hi - lo)))"
  by (simp add: ofInt_def)

section \<open>The claims\<close>

subsection \<open>C1: the brightness report\<close>

text \<open>
  Claim C1 says that every brightness within the bounds of the device type, the 400 of a
  Litra Beam included, is written as one byte at offset 5 of a 20-byte report that starts
  \<^verbatim>\<open>[0x11, 0xff, 0x04, 0x4c, 0x00]\<close>. The driver does not achieve this. At a Litra Beam
  and brightness 400 the value is within the bounds and \<open>setBrightnessInLumen\<close> returns after
  writing a report of 20 entries, but the entry at offset 5 is the number 400 itself, which is
  no byte: the high byte is the constant \<^verbatim>\<open>0x00\<close>, where \<open>setTemperatureInKelvin\<close> splits its
  value with \<open>integerToBytes\<close>. The padding is that of \<open>padRight_spec\<close>.
\<close>

theorem C1_brightness_report_beam_400:
  "getMinimumBrightnessInLumenForDevice \<lparr>type = LitraBeam, hid = new_HID ''hidraw0''\<rparr> \<le> 400
   \<and> 400 \<le> getMaximumBrightnessInLumenForDevice \<lparr>type = LitraBeam, hid = new_HID ''hidraw0''\<rparr>
   \<and> setBrightnessInLumen utils_1 \<lparr>type = LitraBeam, hid = new_HID ''hidraw0''\<rparr> (ofInt 400)
       = (Returned (),
          \<lparr>type = LitraBeam,
           hid = \<lparr>hidPath = ''hidraw0'',
                  written = [[0x11, 0xff, 0x04, 0x4c, 0x00, 400, 0, 0, 0, 0, 0, 0, 0, 0, 0, 0, 0, 0, 0, 0]]\<rparr>\<rparr>)
   \<and> length [0x11, 0xff, 0x04, 0x4c, 0x00, 400, 0, 0, 0, 0, 0, 0, 0, 0, 0, 0, 0, 0, 0, 0 :: int] = 20
   \<and> \<not> isByte ([0x11, 0xff, 0x04, 0x4c, 0x00, 400, 0, 0, 0, 0, 0, 0, 0, 0, 0, 0, 0, 0, 0, 0] ! 5)
   \<and> \<not> list_all isByte [0x11, 0xff, 0x04, 0x4c, 0x00, 400, 0, 0, 0, 0, 0, 0, 0, 0, 0, 0, 0, 0, 0, 0]"
  by (simp add: setBrightnessInLumen_ofInt getMinimumBrightnessInLumenForDevice_def
        getMaximumBrightnessInLumenForDevice_def utils_1_def padRight_spec_brightness
        hid_write_def new_HID_def isByte_def)

subsection \<open>C2: percentage 0 is the minimum temperature\<close>

text \<open>
  Claim C2. For every device, \<open>setTemperaturePercentage\<close> at percentage 0 does exactly what
  \<open>setTemperatureInKelvin\<close> does at the device's minimum temperature: it writes the same
  report, namely the temperature report of the minimum itself. No rounding takes part: the
  equation holds whatever \<open>percentageWithinRange\<close> of \<open>u\<close> computes.
\<close>

theorem C2_percentage_zero_is_minimum:
  "setTemperaturePercentage u d (Fin 0)
     = setTemperatureInKelvin u d (ofInt (getMinimumTemperatureInKelvinForDevice d))
   \<and> setTemperaturePercentage u d (Fin 0)
     = (Returned (),
        d\<lparr>hid := hid_write (hid d)
             (padRight u ([0x11, 0xff, 0x04, 0x9c]
                @ integerToBytes u (getMinimumTemperatureInKelvinForDevice d)) 20 0x00)\<rparr>)"
proof -
  have "setTemperaturePercentage u d (Fin 0)
          = setTemperatureInKelvin u d (ofInt (getMinimumTemperatureInKelvinForDevice d))"
    by (simp add: setTemperaturePercentage_def js_gt_def Let_def)
  moreover have "setTemperatureInKelvin u d (ofInt (getMinimumTemperatureInKelvinForDevice d))
          = (Returned (),
             d\<lparr>hid := hid_write (hid d)
               (padRight u ([0x11, 0xff, 0x04, 0x9c]
                  @ integerToBytes u (getMinimumTemperatureInKelvinForDevice d)) 20 0x00)\<rparr>)"
    by (simp add: setTemperatureInKelvin_ofInt temperature_bounds)
  ultimately show ?thesis
    by simp
qed

subsection \<open>C3: interpolation of a percentage\<close>

text \<open>
  Claim C3. With the interpolation of the specification for \<open>percentageWithinRange\<close>, for
  every device and every percentage \<open>p\<close> with \<open>0 < p \<le> 100\<close>, \<open>setTemperaturePercentage\<close> hands
  \<open>min + round (p / 100 * (max - min))\<close> to \<open>setTemperatureInKelvin\<close>, and
  \<open>setBrightnessPercentage\<close> does the same over the brightness bounds with
  \<open>setBrightnessInLumen\<close>. At 100 the value handed over is the maximum itself, and the
  temperature report written is the report of the maximum temperature.
\<close>

theorem C3_percentage_interpolation:
  assumes "percentageWithinRange u = percentageWithinRange_spec"
    and "0 < p" and "p \<le> 100"
  shows "setTemperaturePercentage u d (Fin p)
           = setTemperatureInKelvin u d
               (ofInt (getMinimumTemperatureInKelvinForDevice d
                       + round (p / 100 * of_int (getMaximumTemperatureInKelvinForDevice d
                                                   - getMinimumTemperatureInKelvinForDevice d))))
       \<and> setBrightnessPercentage u d (Fin p)
           = setBrightnessInLumen u d
               (ofInt (getMinimumBrightnessInLumenForDevice d
                       + round (p / 100 * of_int (getMaximumBrightnessInLumenForDevice d
                                                   - getMinimumBrightnessInLumenForDevice d))))
       \<and> setTemperaturePercentage u d (Fin 100)
           = setTemperatureInKelvin u d (ofInt (getMaximumTemperatureInKelvinForDevice d))
       \<and> setTemperaturePercentage u d (Fin 100)
           = (Returned (),
              d\<lparr>hid := hid_write (hid d)
                   (padRight u ([0x11, 0xff, 0x04, 0x9c]
                      @ integerToBytes u (getMaximumTemperatureInKelvinForDevice d)) 20 0x00)\<rparr>)
       \<and> setBrightnessPercentage u d (Fin 100)
           = setBrightnessInLumen u d (ofInt (getMaximumBrightnessInLumenForDevice d))"
proof -
  have t: "setTemperaturePercentage u d (Fin p)
           = setTemperatureInKelvin u d
               (ofInt (getMinimumTemperatureInKelvinForDevice d
                       + round (p / 100 * of_int (getMaximumTemperatureInKelvinForDevice d
                                                   - getMinimumTemperatureInKelvinForDevice d))))"
    using assms by (simp add: setTemperaturePercentage_Fin percentageWithinRange_spec_Fin del: percentageWithinRange_spec.simps)
  have b: "setBrightnessPercentage u d (Fin p)
           = setBrightnessInLumen u d
               (ofInt (getMinimumBrightnessInLumenForDevice d
                       + round (p / 100 * of_int (getMaximumBrightnessInLumenForDevice d
                                                   - getMinimumBrightnessInLumenForDevice d))))"
    using assms by (simp add: setBrightnessPercentage_Fin percentageWithinRange_spec_Fin del: percentageWithinRange_spec.simps)
  have t100: "setTemperaturePercentage u d (Fin 100)
           = setTemperatureInKelvin u d (ofInt (getMaximumTemperatureInKelvinForDevice d))"
    using assms(1) by (simp add: setTemperaturePercentage_Fin percentageWithinRange_spec_Fin round_of_int_diff del: percentageWithinRange_spec.simps)
  have w100: "setTemperatureInKelvin u d (ofInt (getMaximumTemperatureInKelvinForDevice d))
           = (Returned (),
              d\<lparr>hid := hid_write (hid d)
                   (padRight u ([0x11, 0xff, 0x04, 0x9c]
                      @ integerToBytes u (getMaximumTemperatureInKelvinForDevice d)) 20 0x00)\<rparr>)"
    by (simp add: setTemperatureInKelvin_ofInt temperature_bounds)
  have b100: "setBrightnessPercentage u d (Fin 100)
           = setBrightnessInLumen u d (ofInt (getMaximumBrightnessInLumenForDevice d))"
    using assms(1) by (simp add: setBrightnessPercentage_Fin percentageWithinRange_spec_Fin round_of_int_diff del: percentageWithinRange_spec.simps)
  from t b t100 w100 b100 show ?thesis
    by simp
qed

text \<open>
  Claim C3 on a Litra Glow: 50.5 percent of the temperature range is 4619 K, 25 percent of the
  brightness range is 78 (the tie 57.5 rounds up), and 100 percent gives 6500 K and 250.
\<close>

theorem C3_percentage_interpolation_witness:
  "percentageWithinRange utils_1 = percentageWithinRange_spec
   \<and> (0 :: rat) < 101 / 2 \<and> (101 / 2 :: rat) \<le> 100 \<and> (0 :: rat) < 25 \<and> (25 :: rat) \<le> 100
   \<and> setTemperaturePercentage utils_1 \<lparr>type = LitraGlow, hid = new_HID ''hidraw0''\<rparr> (Fin (101 / 2))
       = setTemperatureInKelvin utils_1 \<lparr>type = LitraGlow, hid = new_HID ''hidraw0''\<rparr> (ofInt 4619)
   \<and> setBrightnessPercentage utils_1 \<lparr>type = LitraGlow, hid = new_HID ''hidraw0''\<rparr> (Fin 25)
       = setBrightnessInLumen utils_1 \<lparr>type = LitraGlow, hid = new_HID ''hidraw0''\<rparr> (ofInt 78)
   \<and> setTemperaturePercentage utils_1 \<lparr>type = LitraGlow, hid = new_HID ''hidraw0''\<rparr> (Fin 100)
       = setTemperatureInKelvin utils_1 \<lparr>type = LitraGlow, hid = new_HID ''hidraw0''\<rparr> (ofInt 6500)
   \<and> setBrightnessPercentage utils_1 \<lparr>type = LitraGlow, hid = new_HID ''hidraw0''\<rparr> (Fin 100)
       = setBrightnessInLumen utils_1 \<lparr>type = LitraGlow, hid = new_HID ''hidraw0''\<rparr> (ofInt 250)"
proof -
  let ?d = "\<lparr>type = LitraGlow, hid = new_HID ''hidraw0''\<rparr>"
  have h: "percentageWithinRange utils_1 = percentageWithinRange_spec"
    by (simp add: utils_1_def)
  have p1: "(0 :: rat) < 101 / 2" "(101 / 2 :: rat) \<le> 100"
    by simp_all
  have p2: "(0 :: rat) < 25" "(25 :: rat) \<le> 100"
    by simp_all
  have bnd: "getMinimumTemperatureInKelvinForDevice ?d = 2700"
    "getMaximumTemperatureInKelvinForDevice ?d = 6500"
    "getMinimumBrightnessInLumenForDevice ?d = 20"
    "getMaximumBrightnessInLumenForDevice ?d = 250"
    by (simp_all add: getMinimumTemperatureInKelvinForDevice_def getMaximumTemperatureInKelvinForDevice_def
          getMinimumBrightnessInLumenForDevice_def getMaximumBrightnessInLumenForDevice_def)
  have r1: "round ((101 / 2 :: rat) / 100 * of_int (6500 - 2700)) = 1919"
    by (simp add: round_def floor_rat_numeral)
  have r2: "round ((25 :: rat) / 100 * of_int (250 - 20)) = 58"
    by (simp add: round_def floor_rat_numeral)
  from C3_percentage_interpolation [OF h p1, of ?d]
  have a: "setTemperaturePercentage utils_1 ?d (Fin (101 / 2)) = setTemperatureInKelvin utils_1 ?d (ofInt 4619)"
    "setTemperaturePercentage utils_1 ?d (Fin 100) = setTemperatureInKelvin utils_1 ?d (ofInt 6500)"
    "setBrightnessPercentage utils_1 ?d (Fin 100) = setBrightnessInLumen utils_1 ?d (ofInt 250)"
    unfolding bnd r1 by simp_all
  from C3_percentage_interpolation [OF h p2, of ?d]
  have b: "setBrightnessPercentage utils_1 ?d (Fin 25) = setBrightnessInLumen utils_1 ?d (ofInt 78)"
    unfolding bnd r2 by simp
  from h p1 p2 a b show ?thesis
    by simp
qed

subsection \<open>C4: out-of-range values\<close>

text \<open>
  Claim C4. For every device and every integer value, \<open>setBrightnessInLumen\<close> and
  \<open>setTemperatureInKelvin\<close> throw the out-of-range message exactly when the value is below
  the minimum or above the maximum of the device's type, and return otherwise; the message
  spells out both bounds in decimal. In particular a Litra Glow rejects brightness 19 and 251
  and accepts 20 and 250.
\<close>

theorem C4_range_errors:
  "fst (setBrightnessInLumen u d (ofInt n))
     = (if n < getMinimumBrightnessInLumenForDevice d \<or> getMaximumBrightnessInLumenForDevice d < n
        then Threw (''Provided brightness must be between ''
                    @ Number_toString (getMinimumBrightnessInLumenForDevice d) @ '' and ''
                    @ Number_toString (getMaximumBrightnessInLumenForDevice d) @ '' for this device'')
        else Returned ())
   \<and> fst (setTemperatureInKelvin u d (ofInt n))
     = (if n < getMinimumTemperatureInKelvinForDevice d \<or> getMaximumTemperatureInKelvinForDevice d < n
        then Threw (''Provided temperature must be between ''
                    @ Number_toString (getMinimumTemperatureInKelvinForDevice d) @ '' and ''
                    @ Number_toString (getMaximumTemperatureInKelvinForDevice d) @ '' for this device'')
        else Returned ())
   \<and> fst (setBrightnessInLumen u \<lparr>type = LitraGlow, hid = h\<rparr> (ofInt 19))
     = Threw ''Provided brightness must be between 20 and 250 for this device''
   \<and> fst (setBrightnessInLumen u \<lparr>type = LitraGlow, hid = h\<rparr> (ofInt 20)) = Returned ()
   \<and> fst (setBrightnessInLumen u \<lparr>type = LitraGlow, hid = h\<rparr> (ofInt 250)) = Returned ()
   \<and> fst (setBrightnessInLumen u \<lparr>type = LitraGlow, hid = h\<rparr> (ofInt 251))
     = Threw ''Provided brightness must be between 20 and 250 for this device''
   \<and> fst (setBrightnessInLumen u \<lparr>type = LitraBeam, hid = h\<rparr> (ofInt 401))
     = Threw ''Provided brightness must be between 30 and 400 for this device''
   \<and> fst (setTemperatureInKelvin u d (ofInt 6501))
     = Threw ''Provided temperature must be between 2700 and 6500 for this device''"
proof -
  let ?glow = "\<lparr>type = LitraGlow, hid = h\<rparr>"
  let ?beam = "\<lparr>type = LitraBeam, hid = h\<rparr>"
  have glow: "getMinimumBrightnessInLumenForDevice ?glow = 20"
             "getMaximumBrightnessInLumenForDevice ?glow = 250"
    by (simp_all add: getMinimumBrightnessInLumenForDevice_def getMaximumBrightnessInLumenForDevice_def)
  have beam: "getMinimumBrightnessInLumenForDevice ?beam = 30"
             "getMaximumBrightnessInLumenForDevice ?beam = 400"
    by (simp_all add: getMinimumBrightnessInLumenForDevice_def getMaximumBrightnessInLumenForDevice_def)
  have b: "fst (setBrightnessInLumen u d (ofInt n))
     = (if n < getMinimumBrightnessInLumenForDevice d \<or> getMaximumBrightnessInLumenForDevice d < n
        then Threw (''Provided brightness must be between ''
                    @ Number_toString (getMinimumBrightnessInLumenForDevice d) @ '' and ''
                    @ Number_toString (getMaximumBrightnessInLumenForDevice d) @ '' for this device'')
        else Returned ())"
    by (simp only: setBrightnessInLumen_ofInt if_distrib [of fst] fst_conv)
  have t: "fst (setTemperatureInKelvin u d (ofInt n))
     = (if n < getMinimumTemperatureInKelvinForDevice d \<or> getMaximumTemperatureInKelvinForDevice d < n
        then Threw (''Provided temperature must be between ''
                    @ Number_toString (getMinimumTemperatureInKelvinForDevice d) @ '' and ''
                    @ Number_toString (getMaximumTemperatureInKelvinForDevice d) @ '' for this device'')
        else Returned ())"
    by (simp only: setTemperatureInKelvin_ofInt if_distrib [of fst] fst_conv)
  have g19: "fst (setBrightnessInLumen u ?glow (ofInt 19))
     = Threw ''Provided brightness must be between 20 and 250 for this device''"
    by (simp add: setBrightnessInLumen_ofInt glow Number_toString_bounds)
  have g20: "fst (setBrightnessInLumen u ?glow (ofInt 20)) = Returned ()"
    by (simp add: setBrightnessInLumen_ofInt glow)
  have g250: "fst (setBrightnessInLumen u ?glow (ofInt 250)) = Returned ()"
    by (simp add: setBrightnessInLumen_ofInt glow)
  have g251: "fst (setBrightnessInLumen u ?glow (ofInt 251))
     = Threw ''Provided brightness must be between 20 and 250 for this device''"
    by (simp add: setBrightnessInLumen_ofInt glow Number_toString_bounds)
  have b401: "fst (setBrightnessInLumen u ?beam (ofInt 401))
     = Threw ''Provided brightness must be between 30 and 400 for this device''"
    by (simp add: setBrightnessInLumen_ofInt beam Number_toString_bounds)
  have t6501: "fst (setTemperatureInKelvin u d (ofInt 6501))
     = Threw ''Provided temperature must be between 2700 and 6500 for this device''"
    by (simp add: setTemperatureInKelvin_ofInt temperature_bounds Number_toString_bounds)
  from b t g19 g20 g250 g251 b401 t6501 show ?thesis
    by (intro conjI)
qed

subsection \<open>C5: values that are not integers\<close>

text \<open>
  Claim C5. For every device and every number that is not an integer (such as 3000.5, and
  also NaN and the infinities), \<open>setTemperatureInKelvin\<close> and \<open>setBrightnessInLumen\<close> throw
  the not-an-integer message and leave the device as it was. The bounds play no part, so the
  integer test comes before the range test: 2.5 is below every minimum and still gets the
  not-an-integer message.
\<close>

theorem C5_not_an_integer:
  assumes "\<And>n. v \<noteq> ofInt n"
  shows "setTemperatureInKelvin u d v = (Threw ''Provided temperature must be an integer'', d)
       \<and> setBrightnessInLumen u d v = (Threw ''Provided brightness must be an integer'', d)"
proof -
  from assms have "\<not> Number_isInteger v"
    by (simp add: Number_isInteger_iff)
  then show ?thesis
    by (simp add: setTemperatureInKelvin_not_integer setBrightnessInLumen_not_integer)
qed

text \<open>
  Claim C5 at 3000.5 (within the temperature bounds), at 2.5 (below every brightness
  minimum) and at NaN.
\<close>

theorem C5_not_an_integer_witness:
  "(\<forall>n. Fin (6001 / 2) \<noteq> ofInt n) \<and> (\<forall>n. Fin (5 / 2) \<noteq> ofInt n) \<and> (\<forall>n. NaN \<noteq> ofInt n)
   \<and> setTemperatureInKelvin utils_1 \<lparr>type = LitraGlow, hid = new_HID ''hidraw0''\<rparr> (Fin (6001 / 2))
       = (Threw ''Provided temperature must be an integer'', \<lparr>type = LitraGlow, hid = new_HID ''hidraw0''\<rparr>)
   \<and> setBrightnessInLumen utils_1 \<lparr>type = LitraGlow, hid = new_HID ''hidraw0''\<rparr> (Fin (5 / 2))
       = (Threw ''Provided brightness must be an integer'', \<lparr>type = LitraGlow, hid = new_HID ''hidraw0''\<rparr>)
   \<and> setTemperatureInKelvin utils_1 \<lparr>type = LitraGlow, hid = new_HID ''hidraw0''\<rparr> NaN
       = (Threw ''Provided temperature must be an integer'', \<lparr>type = LitraGlow, hid = new_HID ''hidraw0''\<rparr>)"
proof -
  have a: "\<forall>n. Fin (6001 / 2) \<noteq> ofInt n"
    using Number_isInteger_iff [of "Fin (6001 / 2)"] by (simp add: floor_rat_numeral)
  have b: "\<forall>n. Fin (5 / 2) \<noteq> ofInt n"
    using Number_isInteger_iff [of "Fin (5 / 2)"] by (simp add: floor_rat_numeral)
  have c: "\<forall>n. NaN \<noteq> ofInt n"
    by (simp add: ofInt_def)
  from a b c show ?thesis
    using C5_not_an_integer [of "Fin (6001 / 2)" utils_1 "\<lparr>type = LitraGlow, hid = new_HID ''hidraw0''\<rparr>"]
          C5_not_an_integer [of "Fin (5 / 2)" utils_1 "\<lparr>type = LitraGlow, hid = new_HID ''hidraw0''\<rparr>"]
          C5_not_an_integer [of NaN utils_1 "\<lparr>type = LitraGlow, hid = new_HID ''hidraw0''\<rparr>"]
    by blast
qed

subsection \<open>C6: percentages outside 0 to 100\<close>

text \<open>
  Claim C6. For every device and every finite percentage \<open>p\<close>, \<open>setTemperaturePercentage\<close> and
  \<open>setBrightnessPercentage\<close> throw the percentage message exactly when \<open>p < 0\<close> or
  \<open>100 < p\<close>; then the device is left as it was, whatever the helpers \<open>u\<close> compute, so no
  interpolated value takes part. In particular -1 and 101 are rejected, and so are the two
  infinities.
\<close>

theorem C6_percentage_range:
  "(fst (setTemperaturePercentage u d (Fin p)) = Threw ''Percentage must be between 0 and 100'')
      = (p < 0 \<or> 100 < p)
   \<and> (fst (setBrightnessPercentage u d (Fin p)) = Threw ''Percentage must be between 0 and 100'')
      = (p < 0 \<or> 100 < p)
   \<and> (p < 0 \<or> 100 < p \<longrightarrow>
        setTemperaturePercentage u d (Fin p) = (Threw ''Percentage must be between 0 and 100'', d)
      \<and> setBrightnessPercentage u d (Fin p) = (Threw ''Percentage must be between 0 and 100'', d))
   \<and> setTemperaturePercentage u d (Fin (- 1)) = (Threw ''Percentage must be between 0 and 100'', d)
   \<and> setTemperaturePercentage u d (Fin 101) = (Threw ''Percentage must be between 0 and 100'', d)
   \<and> setBrightnessPercentage u d (Fin (- 1)) = (Threw ''Percentage must be between 0 and 100'', d)
   \<and> setBrightnessPercentage u d (Fin 101) = (Threw ''Percentage must be between 0 and 100'', d)
   \<and> setTemperaturePercentage u d PosInfinity = (Threw ''Percentage must be between 0 and 100'', d)
   \<and> setTemperaturePercentage u d NegInfinity = (Threw ''Percentage must be between 0 and 100'', d)
   \<and> setBrightnessPercentage u d PosInfinity = (Threw ''Percentage must be between 0 and 100'', d)
   \<and> setBrightnessPercentage u d NegInfinity = (Threw ''Percentage must be between 0 and 100'', d)"
proof -
  have t: "(fst (setTemperaturePercentage u d (Fin p)) = Threw ''Percentage must be between 0 and 100'')
      = (p < 0 \<or> 100 < p)"
    by (simp only: setTemperaturePercentage_Fin if_distrib [of fst] fst_conv
          setTemperatureInKelvin_not_percentage_error split: if_split) simp
  have b: "(fst (setBrightnessPercentage u d (Fin p)) = Threw ''Percentage must be between 0 and 100'')
      = (p < 0 \<or> 100 < p)"
    by (simp only: setBrightnessPercentage_Fin if_distrib [of fst] fst_conv
          setBrightnessInLumen_not_percentage_error split: if_split) simp
  have r: "p < 0 \<or> 100 < p \<longrightarrow>
        setTemperaturePercentage u d (Fin p) = (Threw ''Percentage must be between 0 and 100'', d)
      \<and> setBrightnessPercentage u d (Fin p) = (Threw ''Percentage must be between 0 and 100'', d)"
    by (simp add: setTemperaturePercentage_Fin setBrightnessPercentage_Fin)
  have c: "setTemperaturePercentage u d (Fin (- 1)) = (Threw ''Percentage must be between 0 and 100'', d)"
    "setTemperaturePercentage u d (Fin 101) = (Threw ''Percentage must be between 0 and 100'', d)"
    "setBrightnessPercentage u d (Fin (- 1)) = (Threw ''Percentage must be between 0 and 100'', d)"
    "setBrightnessPercentage u d (Fin 101) = (Threw ''Percentage must be between 0 and 100'', d)"
    by (simp_all add: setTemperaturePercentage_Fin setBrightnessPercentage_Fin)
  have i: "setTemperaturePercentage u d PosInfinity = (Threw ''Percentage must be between 0 and 100'', d)"
    "setTemperaturePercentage u d NegInfinity = (Threw ''Percentage must be between 0 and 100'', d)"
    "setBrightnessPercentage u d PosInfinity = (Threw ''Percentage must be between 0 and 100'', d)"
    "setBrightnessPercentage u d NegInfinity = (Threw ''Percentage must be between 0 and 100'', d)"
    by (simp_all add: setTemperaturePercentage_def setBrightnessPercentage_def js_gt_def)
  from t b r c i show ?thesis
    by (intro conjI)
qed

text \<open>
  Claim C6 at 50.5, which is not rejected, and at 100.5, which is.
\<close>

theorem C6_percentage_range_witness:
  "((101 / 2 :: rat) < 0 \<or> 100 < (101 / 2 :: rat)) = False
   \<and> fst (setTemperaturePercentage utils_1 \<lparr>type = LitraGlow, hid = new_HID ''hidraw0''\<rparr> (Fin (101 / 2)))
       \<noteq> Threw ''Percentage must be between 0 and 100''
   \<and> ((201 / 2 :: rat) < 0 \<or> 100 < (201 / 2 :: rat))
   \<and> setTemperaturePercentage utils_1 \<lparr>type = LitraGlow, hid = new_HID ''hidraw0''\<rparr> (Fin (201 / 2))
       = (Threw ''Percentage must be between 0 and 100'', \<lparr>type = LitraGlow, hid = new_HID ''hidraw0''\<rparr>)
   \<and> setBrightnessPercentage utils_1 \<lparr>type = LitraGlow, hid = new_HID ''hidraw0''\<rparr> (Fin (201 / 2))
       = (Threw ''Percentage must be between 0 and 100'', \<lparr>type = LitraGlow, hid = new_HID ''hidraw0''\<rparr>)"
proof -
  have a: "((101 / 2 :: rat) < 0 \<or> 100 < (101 / 2 :: rat)) = False"
    by simp
  have b: "(201 / 2 :: rat) < 0 \<or> 100 < (201 / 2 :: rat)"
    by simp
  show ?thesis
    using a b
      C6_percentage_range [of utils_1 "\<lparr>type = LitraGlow, hid = new_HID ''hidraw0''\<rparr>" "101 / 2"]
      C6_percentage_range [of utils_1 "\<lparr>type = LitraGlow, hid = new_HID ''hidraw0''\<rparr>" "201 / 2"]
    by blast
qed

subsection \<open>C7: nothing is written when a setter throws\<close>

text \<open>
  Claim C7. Whenever one of the four setters throws, whatever the message, the device it
  leaves is the device it was given: the handle's log of written reports is unchanged. This
  holds for every device, every argument and every choice of the helpers \<open>u\<close>.
\<close>

theorem C7_no_write_on_error:
  "(fst (setTemperatureInKelvin u d v) = Threw e \<longrightarrow> snd (setTemperatureInKelvin u d v) = d)
   \<and> (fst (setBrightnessInLumen u d v) = Threw e \<longrightarrow> snd (setBrightnessInLumen u d v) = d)
   \<and> (fst (setTemperaturePercentage u d v) = Threw e \<longrightarrow> snd (setTemperaturePercentage u d v) = d)
   \<and> (fst (setBrightnessPercentage u d v) = Threw e \<longrightarrow> snd (setBrightnessPercentage u d v) = d)"
  by (intro conjI impI setTemperatureInKelvin_threw_unchanged setBrightnessInLumen_threw_unchanged
        setTemperaturePercentage_threw_unchanged setBrightnessPercentage_threw_unchanged)

text \<open>
  Claim C7 at one throwing call of each setter: a temperature above the maximum, a
  brightness below the minimum, a percentage above 100, and the percentage NaN, which passes
  the percentage test and is rejected by the integer test of \<open>setBrightnessInLumen\<close>.
\<close>

theorem C7_no_write_on_error_witness:
  "fst (setTemperatureInKelvin utils_1 \<lparr>type = LitraGlow, hid = new_HID ''hidraw0''\<rparr> (ofInt 7000))
      = Threw ''Provided temperature must be between 2700 and 6500 for this device''
   \<and> snd (setTemperatureInKelvin utils_1 \<lparr>type = LitraGlow, hid = new_HID ''hidraw0''\<rparr> (ofInt 7000))
      = \<lparr>type = LitraGlow, hid = new_HID ''hidraw0''\<rparr>
   \<and> fst (setBrightnessInLumen utils_1 \<lparr>type = LitraGlow, hid = new_HID ''hidraw0''\<rparr> (ofInt 19))
      = Threw ''Provided brightness must be between 20 and 250 for this device''
   \<and> snd (setBrightnessInLumen utils_1 \<lparr>type = LitraGlow, hid = new_HID ''hidraw0''\<rparr> (ofInt 19))
      = \<lparr>type = LitraGlow, hid = new_HID ''hidraw0''\<rparr>
   \<and> fst (setTemperaturePercentage utils_1 \<lparr>type = LitraGlow, hid = new_HID ''hidraw0''\<rparr> (Fin 101))
      = Threw ''Percentage must be between 0 and 100''
   \<and> snd (setTemperaturePercentage utils_1 \<lparr>type = LitraGlow, hid = new_HID ''hidraw0''\<rparr> (Fin 101))
      = \<lparr>type = LitraGlow, hid = new_HID ''hidraw0''\<rparr>
   \<and> fst (setBrightnessPercentage utils_1 \<lparr>type = LitraGlow, hid = new_HID ''hidraw0''\<rparr> NaN)
      = Threw ''Provided brightness must be an integer''
   \<and> snd (setBrightnessPercentage utils_1 \<lparr>type = LitraGlow, hid = new_HID ''hidraw0''\<rparr> NaN)
      = \<lparr>type = LitraGlow, hid = new_HID ''hidraw0''\<rparr>"
proof -
  let ?d = "\<lparr>type = LitraGlow, hid = new_HID ''hidraw0''\<rparr>"
  have a: "fst (setTemperatureInKelvin utils_1 ?d (ofInt 7000))
      = Threw ''Provided temperature must be between 2700 and 6500 for this device''"
    by (simp add: setTemperatureInKelvin_ofInt temperature_bounds Number_toString_bounds)
  have b: "fst (setBrightnessInLumen utils_1 ?d (ofInt 19))
      = Threw ''Provided brightness must be between 20 and 250 for this device''"
    by (simp add: setBrightnessInLumen_ofInt getMinimumBrightnessInLumenForDevice_def
          getMaximumBrightnessInLumenForDevice_def Number_toString_bounds)
  have c: "fst (setTemperaturePercentage utils_1 ?d (Fin 101)) = Threw ''Percentage must be between 0 and 100''"
    by (simp add: setTemperaturePercentage_Fin)
  have e: "fst (setBrightnessPercentage utils_1 ?d NaN) = Threw ''Provided brightness must be an integer''"
    by (simp add: setBrightnessPercentage_def js_gt_def utils_1_def setBrightnessInLumen_not_integer)
  from a b c e show ?thesis
    using C7_no_write_on_error [of utils_1 ?d "ofInt 7000"
            "''Provided temperature must be between 2700 and 6500 for this device''"]
          C7_no_write_on_error [of utils_1 ?d "ofInt 19"
            "''Provided brightness must be between 20 and 250 for this device''"]
          C7_no_write_on_error [of utils_1 ?d "Fin 101" "''Percentage must be between 0 and 100''"]
          C7_no_write_on_error [of utils_1 ?d NaN "''Provided brightness must be an integer''"]
    by blast
qed

subsection \<open>C8: the power reports\<close>

text \<open>
  Claim C8. With the padding of \<open>padRight_spec\<close>, for every device \<open>turnOn\<close> writes the
  20-entry report \<^verbatim>\<open>[0x11, 0xff, 0x04, 0x1c, 0x01]\<close> followed by fifteen zeros, and
  \<open>turnOff\<close> writes the same report with 0 at offset 4.
\<close>

theorem C8_power_reports:
  assumes "padRight u = padRight_spec"
  shows "turnOn u d = (Returned (),
           d\<lparr>hid := hid_write (hid d)
                [0x11, 0xff, 0x04, 0x1c, 0x01, 0, 0, 0, 0, 0, 0, 0, 0, 0, 0, 0, 0, 0, 0, 0]\<rparr>)
       \<and> turnOff u d = (Returned (),
           d\<lparr>hid := hid_write (hid d)
                [0x11, 0xff, 0x04, 0x1c, 0x00, 0, 0, 0, 0, 0, 0, 0, 0, 0, 0, 0, 0, 0, 0, 0]\<rparr>)
       \<and> length [0x11, 0xff, 0x04, 0x1c, 0x01, 0, 0, 0, 0, 0, 0, 0, 0, 0, 0, 0, 0, 0, 0, 0 :: int] = 20"
  using assms by (simp add: turnOn_def turnOff_def padRight_spec_power)

text \<open>
  Claim C8 on a freshly opened Litra Beam: the log holds exactly the one report.
\<close>

theorem C8_power_reports_witness:
  "padRight utils_1 = padRight_spec
   \<and> written (hid (snd (turnOn utils_1 \<lparr>type = LitraBeam, hid = new_HID ''hidraw0''\<rparr>)))
       = [[0x11, 0xff, 0x04, 0x1c, 0x01, 0, 0, 0, 0, 0, 0, 0, 0, 0, 0, 0, 0, 0, 0, 0]]
   \<and> written (hid (snd (turnOff utils_1 \<lparr>type = LitraBeam, hid = new_HID ''hidraw0''\<rparr>)))
       = [[0x11, 0xff, 0x04, 0x1c, 0x00, 0, 0, 0, 0, 0, 0, 0, 0, 0, 0, 0, 0, 0, 0, 0]]"
proof -
  have h: "padRight utils_1 = padRight_spec"
    by (simp add: utils_1_def)
  show ?thesis
    using h C8_power_reports [OF h, of "\<lparr>type = LitraBeam, hid = new_HID ''hidraw0''\<rparr>"]
    by (simp add: hid_write_def new_HID_def)
qed

subsection \<open>C9: finding the device\<close>

text \<open>
  Claim C9. An entry matches when its vendor id is 0x046d, its product id is 0xc900 or
  0xc901 and its usage page is 0xff43. If the enumeration is \<open>pre @ m # post\<close> where no entry
  of \<open>pre\<close> matches and \<open>m\<close> does, \<open>findDevice\<close> returns the device opened at the path of
  \<open>m\<close>, of type Litra Glow for product id 0xc900 and Litra Beam for 0xc901, whatever follows
  in \<open>post\<close>. If no entry matches, it returns \<^verbatim>\<open>null\<close> and does not throw.
\<close>

theorem C9_findDevice_first_match:
  "(isMatchingDevice x \<longleftrightarrow>
      vendorId x = 0x046d \<and> (productId x = 0xc900 \<or> productId x = 0xc901) \<and> usagePage x = 0xff43)
   \<and> ((\<forall>d\<in>set pre. \<not> isMatchingDevice d) \<and> isMatchingDevice m \<longrightarrow>
        findDevice (pre @ m # post)
          = Returned (Some \<lparr>type = (if productId m = 0xc900 then LitraGlow else LitraBeam),
                            hid = new_HID (path m)\<rparr>))
   \<and> ((\<forall>d\<in>set devices. \<not> isMatchingDevice d) \<longrightarrow> findDevice devices = Returned None)"
proof (intro conjI impI)
  show "isMatchingDevice x \<longleftrightarrow>
      vendorId x = 0x046d \<and> (productId x = 0xc900 \<or> productId x = 0xc901) \<and> usagePage x = 0xff43"
    by (rule isMatchingDevice_iff)
next
  assume a: "(\<forall>d\<in>set pre. \<not> isMatchingDevice d) \<and> isMatchingDevice m"
  then have f: "List.find isMatchingDevice (pre @ m # post) = Some m"
    by (simp add: find_first_match)
  from a have "productId m = 0xc900 \<or> productId m = 0xc901"
    by (simp add: isMatchingDevice_iff)
  then have "getDeviceTypeByProductId (productId m)
               = Returned (if productId m = 0xc900 then LitraGlow else LitraBeam)"
    by (auto simp: getDeviceTypeByProductId_def)
  with f show "findDevice (pre @ m # post)
          = Returned (Some \<lparr>type = (if productId m = 0xc900 then LitraGlow else LitraBeam),
                            hid = new_HID (path m)\<rparr>)"
    by (simp add: findDevice_def)
next
  assume "\<forall>d\<in>set devices. \<not> isMatchingDevice d"
  then have "List.find isMatchingDevice devices = None"
    by (simp add: find_None_iff)
  then show "findDevice devices = Returned None"
    by (simp add: findDevice_def)
qed

text \<open>
  Claim C9 on an enumeration of four entries: a Litra product with another usage page,
  another vendor's device, a Litra Beam and a Litra Glow. The Litra Beam, the first match, is
  returned; the first two entries alone give \<^verbatim>\<open>null\<close>.
\<close>

theorem C9_findDevice_first_match_witness:
  "\<not> isMatchingDevice \<lparr>vendorId = 0x046d, productId = 0xc900, usagePage = 0x0001, path = ''hidraw0''\<rparr>
   \<and> \<not> isMatchingDevice \<lparr>vendorId = 0x05ac, productId = 0xc901, usagePage = 0xff43, path = ''hidraw1''\<rparr>
   \<and> isMatchingDevice \<lparr>vendorId = 0x046d, productId = 0xc901, usagePage = 0xff43, path = ''hidraw2''\<rparr>
   \<and> findDevice
        [\<lparr>vendorId = 0x046d, productId = 0xc900, usagePage = 0x0001, path = ''hidraw0''\<rparr>,
         \<lparr>vendorId = 0x05ac, productId = 0xc901, usagePage = 0xff43, path = ''hidraw1''\<rparr>,
         \<lparr>vendorId = 0x046d, productId = 0xc901, usagePage = 0xff43, path = ''hidraw2''\<rparr>,
         \<lparr>vendorId = 0x046d, productId = 0xc900, usagePage = 0xff43, path = ''hidraw3''\<rparr>]
       = Returned (Some \<lparr>type = LitraBeam, hid = new_HID ''hidraw2''\<rparr>)
   \<and> findDevice
        [\<lparr>vendorId = 0x046d, productId = 0xc900, usagePage = 0x0001, path = ''hidraw0''\<rparr>,
         \<lparr>vendorId = 0x05ac, productId = 0xc901, usagePage = 0xff43, path = ''hidraw1''\<rparr>]
       = Returned None"
proof -
  let ?a = "\<lparr>vendorId = 0x046d, productId = 0xc900, usagePage = 0x0001, path = ''hidraw0''\<rparr>"
  let ?b = "\<lparr>vendorId = 0x05ac, productId = 0xc901, usagePage = 0xff43, path = ''hidraw1''\<rparr>"
  let ?m = "\<lparr>vendorId = 0x046d, productId = 0xc901, usagePage = 0xff43, path = ''hidraw2''\<rparr>"
  let ?c = "\<lparr>vendorId = 0x046d, productId = 0xc900, usagePage = 0xff43, path = ''hidraw3''\<rparr>"
  have a: "\<not> isMatchingDevice ?a"
    using C9_findDevice_first_match [of ?a] by simp
  have b: "\<not> isMatchingDevice ?b"
    using C9_findDevice_first_match [of ?b] by simp
  have m: "isMatchingDevice ?m"
    using C9_findDevice_first_match [of ?m] by simp
  from a b have pre: "\<forall>d\<in>set [?a, ?b]. \<not> isMatchingDevice d"
    by simp
  have found: "findDevice ([?a, ?b] @ ?m # [?c]) = Returned (Some \<lparr>type = LitraBeam, hid = new_HID ''hidraw2''\<rparr>)"
    using C9_findDevice_first_match [of ?m "[?a, ?b]" ?m "[?c]"] pre m by simp
  have none: "findDevice [?a, ?b] = Returned None"
    using C9_findDevice_first_match [of ?m "[]" ?m "[]" "[?a, ?b]"] pre by blast
  from a b m found none show ?thesis
    by simp
qed

subsection \<open>C10: fractional percentages\<close>

text \<open>
  Claim C10. For every device and every percentage \<open>p\<close> with \<open>0 < p < 100\<close>, an integer or
  not, the percentage setters do not test \<open>p\<close> for integrality: they hand the value of
  \<open>percentageWithinRange\<close> to the absolute setter. With the interpolation of the specification
  that value is the integer \<open>min + round (p / 100 * (max - min))\<close>, which lies within the
  bounds, so the call returns and writes the report of that integer: no error is thrown.
\<close>

theorem C10_fractional_percentage_accepted:
  assumes "0 < p" and "p < 100"
  shows "setTemperaturePercentage u d (Fin p)
           = setTemperatureInKelvin u d
               (percentageWithinRange u (Fin p) (getMinimumTemperatureInKelvinForDevice d)
                  (getMaximumTemperatureInKelvinForDevice d))
       \<and> setBrightnessPercentage u d (Fin p)
           = setBrightnessInLumen u d
               (percentageWithinRange u (Fin p) (getMinimumBrightnessInLumenForDevice d)
                  (getMaximumBrightnessInLumenForDevice d))
       \<and> (percentageWithinRange u = percentageWithinRange_spec \<longrightarrow>
            setTemperaturePercentage u d (Fin p)
              = (Returned (),
                 d\<lparr>hid := hid_write (hid d)
                   (padRight u ([0x11, 0xff, 0x04, 0x9c]
                      @ integerToBytes u
                          (getMinimumTemperatureInKelvinForDevice d
                           + round (p / 100 * of_int (getMaximumTemperatureInKelvinForDevice d
                                                       - getMinimumTemperatureInKelvinForDevice d))))
                      20 0x00)\<rparr>)
          \<and> setBrightnessPercentage u d (Fin p)
              = (Returned (),
                 d\<lparr>hid := hid_write (hid d)
                   (padRight u [0x11, 0xff, 0x04, 0x4c, 0x00,
                        getMinimumBrightnessInLumenForDevice d
                        + round (p / 100 * of_int (getMaximumBrightnessInLumenForDevice d
                                                    - getMinimumBrightnessInLumenForDevice d))]
                      20 0x00)\<rparr>))"
proof (intro conjI impI)
  show "setTemperaturePercentage u d (Fin p)
           = setTemperatureInKelvin u d
               (percentageWithinRange u (Fin p) (getMinimumTemperatureInKelvinForDevice d)
                  (getMaximumTemperatureInKelvinForDevice d))"
    using assms by (simp add: setTemperaturePercentage_Fin)
  show "setBrightnessPercentage u d (Fin p)
           = setBrightnessInLumen u d
               (percentageWithinRange u (Fin p) (getMinimumBrightnessInLumenForDevice d)
                  (getMaximumBrightnessInLumenForDevice d))"
    using assms by (simp add: setBrightnessPercentage_Fin)
next
  assume s: "percentageWithinRange u = percentageWithinRange_spec"
  have p: "0 \<le> p" "p \<le> 100"
    using assms by simp_all
  show "setTemperaturePercentage u d (Fin p)
              = (Returned (),
                 d\<lparr>hid := hid_write (hid d)
                   (padRight u ([0x11, 0xff, 0x04, 0x9c]
                      @ integerToBytes u
                          (getMinimumTemperatureInKelvinForDevice d
                           + round (p / 100 * of_int (getMaximumTemperatureInKelvinForDevice d
                                                       - getMinimumTemperatureInKelvinForDevice d))))
                      20 0x00)\<rparr>)"
    using assms s temperature_interpolation_in_range [OF p, of d]
    by (simp add: setTemperaturePercentage_Fin percentageWithinRange_spec_Fin
          setTemperatureInKelvin_ofInt not_less del: percentageWithinRange_spec.simps)
  show "setBrightnessPercentage u d (Fin p)
              = (Returned (),
                 d\<lparr>hid := hid_write (hid d)
                   (padRight u [0x11, 0xff, 0x04, 0x4c, 0x00,
                        getMinimumBrightnessInLumenForDevice d
                        + round (p / 100 * of_int (getMaximumBrightnessInLumenForDevice d
                                                    - getMinimumBrightnessInLumenForDevice d))]
                      20 0x00)\<rparr>)"
    using assms s brightness_interpolation_in_range [OF p, of d]
    by (simp add: setBrightnessPercentage_Fin percentageWithinRange_spec_Fin
          setBrightnessInLumen_ofInt not_less del: percentageWithinRange_spec.simps)
qed

text \<open>
  Claim C10 at 50.5 percent, which is not an integer, on a Litra Glow: temperature 4619 K
  (bytes 18 and 11) and brightness 136.
\<close>

theorem C10_fractional_percentage_accepted_witness:
  "(0 :: rat) < 101 / 2 \<and> (101 / 2 :: rat) < 100
   \<and> \<not> Number_isInteger (Fin (101 / 2))
   \<and> percentageWithinRange utils_1 = percentageWithinRange_spec
   \<and> setTemperaturePercentage utils_1 \<lparr>type = LitraGlow, hid = new_HID ''hidraw0''\<rparr> (Fin (101 / 2))
       = (Returned (),
          \<lparr>type = LitraGlow,
           hid = \<lparr>hidPath = ''hidraw0'',
                  written = [[0x11, 0xff, 0x04, 0x9c, 18, 11, 0, 0, 0, 0, 0, 0, 0, 0, 0, 0, 0, 0, 0, 0]]\<rparr>\<rparr>)
   \<and> setBrightnessPercentage utils_1 \<lparr>type = LitraGlow, hid = new_HID ''hidraw0''\<rparr> (Fin (101 / 2))
       = (Returned (),
          \<lparr>type = LitraGlow,
           hid = \<lparr>hidPath = ''hidraw0'',
                  written = [[0x11, 0xff, 0x04, 0x4c, 0x00, 136, 0, 0, 0, 0, 0, 0, 0, 0, 0, 0, 0, 0, 0, 0]]\<rparr>\<rparr>)"
proof -
  let ?d = "\<lparr>type = LitraGlow, hid = new_HID ''hidraw0''\<rparr>"
  have h: "percentageWithinRange utils_1 = percentageWithinRange_spec"
    by (simp add: utils_1_def)
  have p: "(0 :: rat) < 101 / 2" "(101 / 2 :: rat) < 100"
    by simp_all
  have n: "\<not> Number_isInteger (Fin (101 / 2))"
    by (simp add: floor_rat_numeral)
  have bnd: "getMinimumTemperatureInKelvinForDevice ?d = 2700"
    "getMaximumTemperatureInKelvinForDevice ?d = 6500"
    "getMinimumBrightnessInLumenForDevice ?d = 20"
    "getMaximumBrightnessInLumenForDevice ?d = 250"
    by (simp_all add: getMinimumTemperatureInKelvinForDevice_def getMaximumTemperatureInKelvinForDevice_def
          getMinimumBrightnessInLumenForDevice_def getMaximumBrightnessInLumenForDevice_def)
  have r1: "round ((101 / 2 :: rat) / 100 * of_int (6500 - 2700)) = 1919"
    by (simp add: round_def floor_rat_numeral)
  have r2: "round ((101 / 2 :: rat) / 100 * of_int (250 - 20)) = 116"
    by (simp add: round_def floor_rat_numeral)
  have u: "padRight utils_1 = padRight_spec" "integerToBytes utils_1 = integerToBytes_spec"
    by (simp_all add: utils_1_def)
  note c = C10_fractional_percentage_accepted [OF p, of utils_1 ?d]
  from c [THEN conjunct2, THEN conjunct2, rule_format, OF h]
  have "setTemperaturePercentage utils_1 ?d (Fin (101 / 2))
          = (Returned (), ?d\<lparr>hid := hid_write (hid ?d)
               (padRight_spec ([0x11, 0xff, 0x04, 0x9c] @ integerToBytes_spec 4619) 20 0x00)\<rparr>)"
    and "setBrightnessPercentage utils_1 ?d (Fin (101 / 2))
          = (Returned (), ?d\<lparr>hid := hid_write (hid ?d)
               (padRight_spec [0x11, 0xff, 0x04, 0x4c, 0x00, 136] 20 0x00)\<rparr>)"
    unfolding bnd r1 r2 u by simp_all
  then have "setTemperaturePercentage utils_1 ?d (Fin (101 / 2))
       = (Returned (),
          \<lparr>type = LitraGlow,
           hid = \<lparr>hidPath = ''hidraw0'',
                  written = [[0x11, 0xff, 0x04, 0x9c, 18, 11, 0, 0, 0, 0, 0, 0, 0, 0, 0, 0, 0, 0, 0, 0]]\<rparr>\<rparr>)"
    and "setBrightnessPercentage utils_1 ?d (Fin (101 / 2))
       = (Returned (),
          \<lparr>type = LitraGlow,
           hid = \<lparr>hidPath = ''hidraw0'',
                  written = [[0x11, 0xff, 0x04, 0x4c, 0x00, 136, 0, 0, 0, 0, 0, 0, 0, 0, 0, 0, 0, 0, 0, 0]]\<rparr>\<rparr>)"
    by (simp_all add: integerToBytes_spec_def padRight_spec_temperature padRight_spec_brightness
          hid_write_def new_HID_def)
  with p n h show ?thesis
    by simp
qed

end
